theory Spec2Isabelle
  imports Main
begin

section \<open>Strings, paths, exceptions\<close>

text \<open>
  Text that the program only joins and passes along (messages, file contents, the
  settings other than the URL) is a \<open>string\<close>, one \<open>char\<close> per code point below
  256. The emoji that open some of the source's display literals lie beyond that
  range; they are named constants holding the UTF-8 bytes of the code point, and they
  only ever reach the log, the status line and the message boxes.

  The URL is the one string whose characters the program looks at: it strips it. It
  is a \<open>pystr\<close>, the list of its code points, so that every Unicode whitespace
  character can occur in it. An argument vector holds the URL, so it is a list of
  \<open>pystr\<close>; \<open>ustr\<close> takes a \<open>string\<close> to the \<open>pystr\<close> of the same characters.
\<close>

type_synonym pystr = "nat list"

definition ustr :: "string \<Rightarrow> pystr" where
  "ustr cs = map of_char cs"

definition emoji_headphone :: string where
  "emoji_headphone = [CHR 0xF0, CHR 0x9F, CHR 0x8E, CHR 0xA7]"

definition emoji_microphone :: string where
  "emoji_microphone = [CHR 0xF0, CHR 0x9F, CHR 0x8E, CHR 0xA4]"

definition emoji_memo :: string where
  "emoji_memo = [CHR 0xF0, CHR 0x9F, CHR 0x93, CHR 0x9D]"

definition emoji_check :: string where
  "emoji_check = [CHR 0xE2, CHR 0x9C, CHR 0x85]"

definition emoji_cross :: string where
  "emoji_cross = [CHR 0xE2, CHR 0x9D, CHR 0x8C]"

text \<open>
  \<open>str.isspace\<close> on one character, by code point: TAB, LF, VT, FF, CR (0x09 to 0x0D),
  the separators 0x1C to 0x1F, SPACE (0x20), NEL (0x85), NBSP (0xA0), OGHAM SPACE MARK
  (0x1680), EN QUAD to HAIR SPACE (0x2000 to 0x200A), LINE SEPARATOR (0x2028),
  PARAGRAPH SEPARATOR (0x2029), NARROW NBSP (0x202F), MEDIUM MATHEMATICAL SPACE
  (0x205F) and IDEOGRAPHIC SPACE (0x3000): the 29 characters that Python takes for
  whitespace.
\<close>

definition py_isspace :: "nat \<Rightarrow> bool" where
  "py_isspace n =
     ((0x09 \<le> n \<and> n \<le> 0x0D) \<or> (0x1C \<le> n \<and> n \<le> 0x20) \<or> n = 0x85 \<or> n = 0xA0 \<or>
      n = 0x1680 \<or> (0x2000 \<le> n \<and> n \<le> 0x200A) \<or> n = 0x2028 \<or> n = 0x2029 \<or>
      n = 0x202F \<or> n = 0x205F \<or> n = 0x3000)"

text \<open>\<open>str.strip()\<close>: leading and trailing whitespace removed.\<close>

definition py_strip :: "pystr \<Rightarrow> pystr" where
  "py_strip s = rev (dropWhile py_isspace (rev (dropWhile py_isspace s)))"

text \<open>
  A \<open>pathlib.Path\<close>: \<open>Path s\<close> is \<open>Path(s)\<close>, \<open>Path_join p name\<close> is \<open>p / name\<close>.
  Two paths are the same file when they are built the same way; the normalisation
  that \<open>pathlib\<close> and the file system add on top is not modelled.
\<close>

datatype path = Path string | Path_join path string

text \<open>
  A raised exception with its \<open>str()\<close> text. \<open>Exception\<close> is the generic class the
  source raises itself, \<open>FileNotFoundError\<close> the one it catches by name, and
  \<open>Other_error\<close> any other subclass of \<open>Exception\<close> that a library call raises.
\<close>

datatype exn = Exception string | FileNotFoundError string | Other_error string

fun str_exn :: "exn \<Rightarrow> string" where
  "str_exn (Exception m) = m"
| "str_exn (FileNotFoundError m) = m"
| "str_exn (Other_error m) = m"

text \<open>
  What starting a child process and waiting for it gives: an exception from the
  spawn, or the return code with the captured standard output and standard error.
\<close>

datatype proc = Raises exn | Exits int string string

fun exited_ok :: "proc \<Rightarrow> bool" where
  "exited_ok (Exits rc out err) = (rc = 0)"
| "exited_ok (Raises e) = False"

text \<open>
  Reading a file opened in text mode with the default \<open>newline=None\<close>: each
  \<open>\r\n\<close> and each lone \<open>\r\<close> arrives as \<open>\n\<close>. Writing is modelled for a platform
  whose line separator is \<open>\n\<close>, where the text is stored as it is.
\<close>

fun universal_newlines :: "string \<Rightarrow> string" where
  "universal_newlines [] = []"
| "universal_newlines [c] = [if c = CHR 0x0D then CHR 0x0A else c]"
| "universal_newlines (c # d # cs) =
     (if c = CHR 0x0D
      then (if d = CHR 0x0A then CHR 0x0A # universal_newlines cs
            else CHR 0x0A # universal_newlines (d # cs))
      else c # universal_newlines (d # cs))"

section \<open>The outside world and the application state\<close>

text \<open>The calls that leave the program, in the order they are made.\<close>

datatype effect =
    Mkdir path
  | Run_process "pystr list" string
  | Load_model string
  | Transcribe string string
  | Open_read path
  | Open_write path

text \<open>
  How the outside world answers during one run of the pipeline: the directory
  creation, the child processes (argument vector and standard input), the \<open>whisper\<close>
  import at module load (\<open>WHISPER_AVAILABLE\<close>, \<open>WHISPER_ERROR\<close>), \<open>whisper.load_model\<close>,
  the model's \<open>transcribe(...)["text"]\<close> (by the size the model was loaded with and
  the file name it is given), \<open>open(..., "w")\<close>, the text of the error for a file
  that does not exist, and \<open>str(p)\<close> of a path as \<open>pathlib\<close> renders it on the
  platform.
\<close>

record world =
  mkdir_error :: "path \<Rightarrow> exn option"
  run_process :: "pystr list \<Rightarrow> string \<Rightarrow> proc"
  whisper_available :: bool
  whisper_error :: string
  load_model_error :: "string \<Rightarrow> exn option"
  transcribe_result :: "string \<Rightarrow> string \<Rightarrow> exn + string"
  write_error :: "path \<Rightarrow> exn option"
  enoent_message :: "path \<Rightarrow> string"
  path_str :: "path \<Rightarrow> string"

datatype box = Showinfo | Showwarning | Showerror

text \<open>
  The fields of \<open>LectureNotesGUI\<close> that the pipeline reads or writes, the widgets it
  drives, the pipeline threads started and not yet finished, the text files that the
  program itself writes and reads, and the trace of outside calls. What a child
  process leaves on disk is not part of \<open>files\<close>: the program never writes or opens
  the audio file, it only hands its name to the downloader and to the transcriber.
  \<open>whisper_model\<close> holds the size the cached model was loaded with. An entry of
  \<open>log_text\<close> is one logged message, without the wall-clock prefix that
  \<open>log_message\<close> puts before it.
\<close>

record app =
  youtube_url :: pystr
  model_size :: string
  ollama_model :: string
  output_folder :: string
  whisper_model :: "string option"
  process_btn_disabled :: bool
  progress_running :: bool
  status_label :: "string \<times> string"
  log_text :: "string list"
  notes_text :: string
  messageboxes :: "(box \<times> string \<times> string) list"
  threads_alive :: nat
  files :: "path \<rightharpoonup> string"
  effects :: "effect list"

text \<open>\<open>__init__\<close> and \<open>setup_ui\<close>, on a given disk.\<close>

definition init :: "(path \<rightharpoonup> string) \<Rightarrow> app" where
  "init disk =
     \<lparr>youtube_url = [], model_size = ''base'', ollama_model = ''llama3'',
      output_folder = ''./'', whisper_model = None,
      process_btn_disabled = False, progress_running = False,
      status_label = (''Ready to process'', ''green''),
      log_text = [], notes_text = [], messageboxes = [],
      threads_alive = 0, files = disk, effects = []\<rparr>"

section \<open>The methods\<close>

definition log_message :: "string \<Rightarrow> app \<Rightarrow> app" where
  "log_message message s = s\<lparr>log_text := log_text s @ [message]\<rparr>"

definition clear_log :: "app \<Rightarrow> app" where
  "clear_log s = s\<lparr>log_text := []\<rparr>"

definition clear_notes :: "app \<Rightarrow> app" where
  "clear_notes s = s\<lparr>notes_text := []\<rparr>"

definition update_status :: "string \<Rightarrow> string \<Rightarrow> app \<Rightarrow> app" where
  "update_status message color s = s\<lparr>status_label := (message, color)\<rparr>"

definition messagebox :: "box \<Rightarrow> string \<Rightarrow> string \<Rightarrow> app \<Rightarrow> app" where
  "messagebox kind title message s =
     s\<lparr>messageboxes := messageboxes s @ [(kind, title, message)]\<rparr>"

definition call :: "effect \<Rightarrow> app \<Rightarrow> app" where
  "call e s = s\<lparr>effects := effects s @ [e]\<rparr>"

text \<open>
  \<open>start_processing\<close>. Starting the thread adds one live pipeline thread; its body,
  \<open>process_pipeline\<close>, runs when the thread is scheduled (\<open>pipeline_thread\<close> below).
\<close>

definition start_processing :: "app \<Rightarrow> app" where
  "start_processing s =
     (if py_strip (youtube_url s) = []
      then messagebox Showerror ''Error'' ''Please enter a YouTube URL'' s
      else s\<lparr>process_btn_disabled := True, progress_running := True,
             threads_alive := Suc (threads_alive s)\<rparr>)"

text \<open>
  A method that can raise returns \<open>(Inl e, s')\<close> when it raises \<open>e\<close> and
  \<open>(Inr v, s')\<close> when it returns \<open>v\<close>; \<open>s'\<close> is the state it leaves behind either way.
\<close>

definition yt_dlp_cmd :: "world \<Rightarrow> app \<Rightarrow> pystr list" where
  "yt_dlp_cmd w s =
     [ustr ''yt-dlp'', ustr ''-f'', ustr ''bestaudio'', ustr ''--extract-audio'',
      ustr ''--audio-format'', ustr ''mp3'', ustr ''-o'',
      ustr (path_str w (Path_join (Path (output_folder s)) ''lecture_audio1.mp3'')),
      youtube_url s]"

text \<open>
  \<open>download_audio\<close>. \<open>subprocess.run(..., check=True)\<close> raises
  \<open>CalledProcessError\<close> on a return code other than 0, which the first handler turns
  into the message with \<open>e.stderr\<close>; the second handler takes \<open>FileNotFoundError\<close>;
  anything else leaves the method as it is. The method writes no file: it names the
  audio path after \<open>-o\<close> and returns it when the downloader exits with 0.
\<close>

definition download_audio :: "world \<Rightarrow> app \<Rightarrow> (exn + path) \<times> app" where
  "download_audio w s =
     (let output_dir = Path (output_folder s);
          audio_file = Path_join output_dir ''lecture_audio1.mp3'';
          s1 = log_message (emoji_headphone @ '' Starting audio download...'') s;
          cmd = yt_dlp_cmd w s;
          s2 = call (Run_process cmd []) s1
      in case run_process w cmd [] of
           Exits rc out err \<Rightarrow>
             if rc = 0
             then (Inr audio_file,
                   log_message (emoji_check @ '' Audio downloaded successfully'') s2)
             else (Inl (Exception (''Failed to download audio: '' @ err)), s2)
         | Raises (FileNotFoundError m) \<Rightarrow>
             (Inl (Exception ''yt-dlp not found. Please install it: pip install yt-dlp''), s2)
         | Raises e \<Rightarrow> (Inl e, s2))"

text \<open>\<open>with open(p, "w", encoding="utf-8") as f: f.write(text)\<close>\<close>

definition write_text :: "world \<Rightarrow> path \<Rightarrow> string \<Rightarrow> app \<Rightarrow> (exn + unit) \<times> app" where
  "write_text w p text s =
     (let s1 = call (Open_write p) s
      in case write_error w p of
           Some e \<Rightarrow> (Inl e, s1)
         | None \<Rightarrow> (Inr (), s1\<lparr>files := (files s1)(p \<mapsto> text)\<rparr>))"

text \<open>\<open>with open(p, "r", encoding="utf-8") as f: f.read()\<close>\<close>

definition read_text :: "world \<Rightarrow> path \<Rightarrow> app \<Rightarrow> (exn + string) \<times> app" where
  "read_text w p s =
     (let s1 = call (Open_read p) s
      in case files s1 p of
           None \<Rightarrow> (Inl (FileNotFoundError (enoent_message w p)), s1)
         | Some text \<Rightarrow> (Inr (universal_newlines text), s1))"

text \<open>The body of the \<open>try\<close> of \<open>transcribe_audio\<close>.\<close>

definition transcribe_audio_try ::
    "world \<Rightarrow> path \<Rightarrow> path \<Rightarrow> app \<Rightarrow> (exn + path) \<times> app" where
  "transcribe_audio_try w audio_file transcript_file s =
     (case (case whisper_model s of
              None \<Rightarrow>
                (let s1 = call (Load_model (model_size s)) s
                 in case load_model_error w (model_size s) of
                      Some e \<Rightarrow> (Inl e, s1)
                    | None \<Rightarrow> (Inr (model_size s),
                               s1\<lparr>whisper_model := Some (model_size s)\<rparr>))
            | Some m \<Rightarrow> (Inr m, s)) of
        (Inl e, s2) \<Rightarrow> (Inl e, s2)
      | (Inr m, s2) \<Rightarrow>
          (let s3 = call (Transcribe m (path_str w audio_file))
                      (log_message (emoji_microphone @ '' Transcribing audio...'') s2)
           in case transcribe_result w m (path_str w audio_file) of
                Inl e \<Rightarrow> (Inl e, s3)
              | Inr text \<Rightarrow>
                  (case write_text w transcript_file text s3 of
                     (Inl e, s4) \<Rightarrow> (Inl e, s4)
                   | (Inr u, s4) \<Rightarrow>
                       (Inr transcript_file,
                        log_message (emoji_check @ '' Transcription completed'') s4))))"

definition transcribe_audio :: "world \<Rightarrow> path \<Rightarrow> app \<Rightarrow> (exn + path) \<times> app" where
  "transcribe_audio w audio_file s =
     (let output_dir = Path (output_folder s);
          transcript_file = Path_join output_dir ''transcript.txt''
      in if \<not> whisper_available w
         then (Inl (Exception (''Whisper not available: '' @ whisper_error w)), s)
         else
           (let s1 = log_message
                       (emoji_microphone @ '' Loading Whisper model ('' @ model_size s @ '')...'') s
            in case transcribe_audio_try w audio_file transcript_file s1 of
                 (Inl e, s2) \<Rightarrow> (Inl (Exception (''Transcription failed: '' @ str_exn e)), s2)
               | (Inr p, s2) \<Rightarrow> (Inr p, s2)))"

definition prompt_template :: string where
  "prompt_template =
     ''You are an expert lecture note-taker.'' @ [CHR 0x0A] @
     ''Take the following transcript and convert it into structured lecture notes with clear sections, headings, and bullet points.'' @ [CHR 0x0A] @
     ''Make it well-organized and easy to study from.'' @ [CHR 0x0A] @
     [CHR 0x0A] @
     ''Transcript:'' @ [CHR 0x0A]"

definition ollama_cmd :: "app \<Rightarrow> pystr list" where
  "ollama_cmd s = [ustr ''ollama'', ustr ''run'', ustr (ollama_model s)]"

text \<open>The body of the \<open>try\<close> of \<open>generate_notes\<close>.\<close>

definition generate_notes_try ::
    "world \<Rightarrow> path \<Rightarrow> string \<Rightarrow> app \<Rightarrow> (exn + path) \<times> app" where
  "generate_notes_try w notes_file prompt s =
     (let cmd = ollama_cmd s;
          s1 = call (Run_process cmd prompt) s
      in case run_process w cmd prompt of
           Raises e \<Rightarrow> (Inl e, s1)
         | Exits returncode lecture_notes errors \<Rightarrow>
             if returncode \<noteq> 0
             then (Inl (Exception (''Ollama error: '' @ errors)), s1)
             else
               (case write_text w notes_file lecture_notes s1 of
                  (Inl e, s2) \<Rightarrow> (Inl e, s2)
                | (Inr u, s2) \<Rightarrow>
                    (Inr notes_file,
                     log_message (emoji_check @ '' Lecture notes generated and displayed'')
                       (s2\<lparr>notes_text := lecture_notes\<rparr>))))"

definition generate_notes :: "world \<Rightarrow> path \<Rightarrow> app \<Rightarrow> (exn + path) \<times> app" where
  "generate_notes w transcript_file s =
     (let output_dir = Path (output_folder s);
          notes_file = Path_join output_dir ''lecture_notes.txt'';
          s1 = log_message (emoji_memo @ '' Generating lecture notes with Ollama...'') s
      in case read_text w transcript_file s1 of
           (Inl e, s2) \<Rightarrow> (Inl e, s2)
         | (Inr transcript, s2) \<Rightarrow>
             (let prompt = prompt_template @ transcript
              in case generate_notes_try w notes_file prompt s2 of
                   (Inl (FileNotFoundError m), s3) \<Rightarrow>
                     (Inl (Exception
                        ''Ollama not found. Please install Ollama and ensure it's in your PATH''), s3)
                 | (Inl e, s3) \<Rightarrow>
                     (Inl (Exception (''Note generation failed: '' @ str_exn e)), s3)
                 | (Inr p, s3) \<Rightarrow> (Inr p, s3)))"

text \<open>\<open>output_dir.mkdir(parents=True, exist_ok=True)\<close>\<close>

definition mkdir :: "world \<Rightarrow> path \<Rightarrow> app \<Rightarrow> (exn + unit) \<times> app" where
  "mkdir w p s =
     (let s1 = call (Mkdir p) s
      in case mkdir_error w p of Some e \<Rightarrow> (Inl e, s1) | None \<Rightarrow> (Inr (), s1))"

text \<open>The body of the \<open>try\<close> of \<open>process_pipeline\<close>.\<close>

definition process_pipeline_try :: "world \<Rightarrow> app \<Rightarrow> (exn + unit) \<times> app" where
  "process_pipeline_try w s =
     (let output_dir = Path (output_folder s)
      in case mkdir w output_dir s of
           (Inl e, s0) \<Rightarrow> (Inl e, s0)
         | (Inr u, s0) \<Rightarrow>
        (case download_audio w (update_status ''Downloading audio...'' ''blue'' s0) of
           (Inl e, s1) \<Rightarrow> (Inl e, s1)
         | (Inr audio_file, s1) \<Rightarrow>
        (case transcribe_audio w audio_file
                (update_status ''Transcribing audio...'' ''blue'' s1) of
           (Inl e, s2) \<Rightarrow> (Inl e, s2)
         | (Inr transcript_file, s2) \<Rightarrow>
        (case generate_notes w transcript_file
                (update_status ''Generating lecture notes...'' ''blue'' s2) of
           (Inl e, s3) \<Rightarrow> (Inl e, s3)
         | (Inr notes_file, s3) \<Rightarrow>
             (Inr (),
              messagebox Showinfo ''Success''
                (''Lecture notes generated successfully!'' @ [CHR 0x0A, CHR 0x0A] @
                 ''Check the 'Generated Notes' tab to view your notes.'')
                (log_message
                   (emoji_memo @ '' Notes are now displayed in the 'Generated Notes' tab'')
                   (log_message
                      (emoji_check @ '' All files saved to: '' @ path_str w output_dir)
                      (update_status
                         (emoji_check @ '' Process completed successfully!'') ''green''
                         s3))))))))"

text \<open>The \<open>except Exception as e\<close> clause of \<open>process_pipeline\<close>.\<close>

definition process_pipeline_except :: "exn \<Rightarrow> app \<Rightarrow> app" where
  "process_pipeline_except e s =
     messagebox Showerror ''Error'' (''Process failed: '' @ str_exn e)
       (log_message (emoji_cross @ '' Error: '' @ str_exn e)
          (update_status (emoji_cross @ '' Error: '' @ str_exn e) ''red'' s))"

text \<open>\<open>process_pipeline\<close>: the \<open>try\<close>, the handler, and the \<open>finally\<close> clause.\<close>

definition process_pipeline :: "world \<Rightarrow> app \<Rightarrow> app" where
  "process_pipeline w s =
     (let s' = (case process_pipeline_try w s of
                  (Inl e, s1) \<Rightarrow> process_pipeline_except e s1
                | (Inr u, s1) \<Rightarrow> s1)
      in s'\<lparr>progress_running := False, process_btn_disabled := False\<rparr>)"

section \<open>The event loop\<close>

text \<open>
  The thread that \<open>start_processing\<close> starts runs \<open>process_pipeline\<close> and ends
  when it returns.
\<close>

definition pipeline_thread :: "world \<Rightarrow> app \<Rightarrow> app" where
  "pipeline_thread w s =
     (let s' = process_pipeline w s in s'\<lparr>threads_alive := threads_alive s' - 1\<rparr>)"

text \<open>
  What can happen to the window: the user edits one of the four settings, presses
  the button whose \<open>command\<close> is \<open>start_processing\<close>, presses one of the two clear
  buttons, or a live pipeline thread runs (against the world as it is then). A
  \<open>ttk.Button\<close> in state \<open>disabled\<close> does not call its command.
\<close>

datatype event =
    Edit_url pystr
  | Select_model_size string
  | Edit_ollama_model string
  | Edit_output_folder string
  | Press_process_btn
  | Press_clear_log
  | Press_clear_notes
  | Thread_runs world

fun gui_event :: "app \<Rightarrow> event \<Rightarrow> app" where
  "gui_event s (Edit_url u) = s\<lparr>youtube_url := u\<rparr>"
| "gui_event s (Select_model_size m) = s\<lparr>model_size := m\<rparr>"
| "gui_event s (Edit_ollama_model m) = s\<lparr>ollama_model := m\<rparr>"
| "gui_event s (Edit_output_folder d) = s\<lparr>output_folder := d\<rparr>"
| "gui_event s Press_process_btn =
     (if process_btn_disabled s then s else start_processing s)"
| "gui_event s Press_clear_log = clear_log s"
| "gui_event s Press_clear_notes = clear_notes s"
| "gui_event s (Thread_runs w) =
     (if threads_alive s = 0 then s else pipeline_thread w s)"

definition gui_events :: "app \<Rightarrow> event list \<Rightarrow> app" where
  "gui_events s evs = foldl gui_event s evs"

section \<open>Test doubles\<close>

text \<open>
  A plain rendering of a path for the test doubles: the parts joined by a slash,
  without the normalisation of \<open>pathlib\<close>.
\<close>

fun posix_str :: "path \<Rightarrow> string" where
  "posix_str (Path d) = d"
| "posix_str (Path_join p name) = posix_str p @ ''/'' @ name"

text \<open>
  A world built from three canned answers: the downloader's, the transcriber's and
  the summarizer's. Everything else succeeds.
\<close>

definition mock_world :: "proc \<Rightarrow> (exn + string) \<Rightarrow> proc \<Rightarrow> world" where
  "mock_world yt tr ol =
     \<lparr>mkdir_error = (\<lambda>p. None),
      run_process = (\<lambda>cmd stdin. if take 1 cmd = [ustr ''ollama''] then ol else yt),
      whisper_available = True,
      whisper_error = [],
      load_model_error = (\<lambda>n. None),
      transcribe_result = (\<lambda>m p. tr),
      write_error = (\<lambda>p. None),
      enoent_message = (\<lambda>p. ''[Errno 2] No such file or directory''),
      path_str = posix_str\<rparr>"

section \<open>Artifacts and backend outcomes\<close>

text \<open>
  The three artifact paths, as each method computes them from the output folder.
\<close>

definition audio_file :: "app \<Rightarrow> path" where
  "audio_file s = Path_join (Path (output_folder s)) ''lecture_audio1.mp3''"

definition transcript_file :: "app \<Rightarrow> path" where
  "transcript_file s = Path_join (Path (output_folder s)) ''transcript.txt''"

definition notes_file :: "app \<Rightarrow> path" where
  "notes_file s = Path_join (Path (output_folder s)) ''lecture_notes.txt''"

text \<open>
  The model that \<open>transcribe_audio\<close> ends up calling: the cached one when there is
  one, otherwise the one it loads for the selected size.
\<close>

definition model_in_use :: "app \<Rightarrow> string" where
  "model_in_use s = (case whisper_model s of None \<Rightarrow> model_size s | Some m \<Rightarrow> m)"

text \<open>
  When the download stage raises: the downloader did not exit with 0. When the
  transcription stage raises: \<open>whisper\<close> is missing, the model cannot be loaded,
  the model's \<open>transcribe\<close> raises, or the transcript cannot be opened for writing.
  (\<open>download_audio_isl\<close> and \<open>transcribe_audio_isl\<close> below: the stages raise in
  exactly these cases.)
\<close>

definition download_fails :: "world \<Rightarrow> app \<Rightarrow> bool" where
  "download_fails w s = (\<not> exited_ok (run_process w (yt_dlp_cmd w s) []))"

definition transcribe_fails :: "world \<Rightarrow> app \<Rightarrow> bool" where
  "transcribe_fails w s =
     (\<not> whisper_available w \<or>
      (whisper_model s = None \<and> load_model_error w (model_size s) \<noteq> None) \<or>
      isl (transcribe_result w (model_in_use s) (path_str w (audio_file s))) \<or>
      write_error w (transcript_file s) \<noteq> None)"

text \<open>
  All three backends answer well in world \<open>w\<close> for the settings of \<open>s\<close>: the
  transcriber returns \<open>transcript\<close>, and the summarizer, given the prompt for it,
  exits with 0 and prints \<open>notes\<close>.
\<close>

definition backends_succeed :: "world \<Rightarrow> app \<Rightarrow> string \<Rightarrow> string \<Rightarrow> bool" where
  "backends_succeed w s transcript notes =
     (mkdir_error w (Path (output_folder s)) = None \<and>
      exited_ok (run_process w (yt_dlp_cmd w s) []) \<and>
      whisper_available w \<and>
      (case whisper_model s of None \<Rightarrow> load_model_error w (model_size s) = None
       | Some m \<Rightarrow> True) \<and>
      transcribe_result w (model_in_use s) (path_str w (audio_file s)) = Inr transcript \<and>
      write_error w (transcript_file s) = None \<and>
      (case run_process w (ollama_cmd s) (prompt_template @ universal_newlines transcript) of
         Exits rc out err \<Rightarrow> rc = 0 \<and> out = notes
       | Raises e \<Rightarrow> False) \<and>
      write_error w (notes_file s) = None)"

text \<open>The outside calls that one run of the pipeline adds to the trace.\<close>

definition run_effects :: "world \<Rightarrow> app \<Rightarrow> effect list" where
  "run_effects w s = drop (length (effects s)) (effects (process_pipeline w s))"

text \<open>What a finished child process printed.\<close>

fun proc_stdout :: "proc \<Rightarrow> string" where
  "proc_stdout (Exits rc out err) = out"
| "proc_stdout (Raises e) = []"

section \<open>Frame lemmas\<close>

lemma ustr_eq_iff [simp]: "ustr a = ustr b \<longleftrightarrow> a = b"
proof -
  have "inj (of_char :: char \<Rightarrow> nat)"
    by (rule injI) simp
  then show ?thesis
    by (simp add: ustr_def inj_map_eq_map)
qed

lemma py_strip_Nil_iff: "py_strip u = [] \<longleftrightarrow> (\<forall>c\<in>set u. py_isspace c)"
proof
  assume "py_strip u = []"
  then have "\<forall>c\<in>set (dropWhile py_isspace u). py_isspace c"
    by (simp add: py_strip_def)
  then have "dropWhile py_isspace u = []"
    using hd_dropWhile [of py_isspace u] hd_in_set [of "dropWhile py_isspace u"] by blast
  then show "\<forall>c\<in>set u. py_isspace c"
    by simp
next
  assume "\<forall>c\<in>set u. py_isspace c"
  then have "dropWhile py_isspace u = []"
    by simp
  then show "py_strip u = []"
    by (simp add: py_strip_def del: dropWhile_eq_Nil_conv)
qed

lemma url_not_blank: "py_strip (ustr ''https://youtu.be/x'') \<noteq> []"
proof
  assume "py_strip (ustr ''https://youtu.be/x'') = []"
  then have "\<forall>c\<in>set (ustr ''https://youtu.be/x''). py_isspace c"
    by (simp only: py_strip_Nil_iff)
  moreover have "104 \<in> set (ustr ''https://youtu.be/x'')"
    by (simp add: ustr_def)
  ultimately have "py_isspace 104"
    by blast
  then show False
    by (simp add: py_isspace_def)
qed

lemmas basic_defs = log_message_def call_def update_status_def messagebox_def

lemma mkdir_frame:
  "youtube_url (snd (mkdir w p s)) = youtube_url s"
  "model_size (snd (mkdir w p s)) = model_size s"
  "ollama_model (snd (mkdir w p s)) = ollama_model s"
  "output_folder (snd (mkdir w p s)) = output_folder s"
  "whisper_model (snd (mkdir w p s)) = whisper_model s"
  "process_btn_disabled (snd (mkdir w p s)) = process_btn_disabled s"
  "progress_running (snd (mkdir w p s)) = progress_running s"
  "notes_text (snd (mkdir w p s)) = notes_text s"
  "threads_alive (snd (mkdir w p s)) = threads_alive s"
  "files (snd (mkdir w p s)) = files s"
  "effects (snd (mkdir w p s)) = effects s @ [Mkdir p]"
  by (simp_all add: mkdir_def Let_def basic_defs split: option.splits)

lemma download_audio_frame:
  "youtube_url (snd (download_audio w s)) = youtube_url s"
  "model_size (snd (download_audio w s)) = model_size s"
  "ollama_model (snd (download_audio w s)) = ollama_model s"
  "output_folder (snd (download_audio w s)) = output_folder s"
  "whisper_model (snd (download_audio w s)) = whisper_model s"
  "process_btn_disabled (snd (download_audio w s)) = process_btn_disabled s"
  "progress_running (snd (download_audio w s)) = progress_running s"
  "notes_text (snd (download_audio w s)) = notes_text s"
  "threads_alive (snd (download_audio w s)) = threads_alive s"
  "effects (snd (download_audio w s)) = effects s @ [Run_process (yt_dlp_cmd w s) []]"
  "files (snd (download_audio w s)) = files s"
  by (simp_all add: download_audio_def Let_def basic_defs split: proc.splits exn.splits)

lemma transcribe_audio_frame:
  "youtube_url (snd (transcribe_audio w a s)) = youtube_url s"
  "model_size (snd (transcribe_audio w a s)) = model_size s"
  "ollama_model (snd (transcribe_audio w a s)) = ollama_model s"
  "output_folder (snd (transcribe_audio w a s)) = output_folder s"
  "process_btn_disabled (snd (transcribe_audio w a s)) = process_btn_disabled s"
  "progress_running (snd (transcribe_audio w a s)) = progress_running s"
  "notes_text (snd (transcribe_audio w a s)) = notes_text s"
  "threads_alive (snd (transcribe_audio w a s)) = threads_alive s"
  by (simp_all add: transcribe_audio_def transcribe_audio_try_def write_text_def Let_def
        basic_defs split: option.splits sum.splits prod.splits)

lemma generate_notes_frame:
  "youtube_url (snd (generate_notes w t s)) = youtube_url s"
  "model_size (snd (generate_notes w t s)) = model_size s"
  "ollama_model (snd (generate_notes w t s)) = ollama_model s"
  "output_folder (snd (generate_notes w t s)) = output_folder s"
  "whisper_model (snd (generate_notes w t s)) = whisper_model s"
  "process_btn_disabled (snd (generate_notes w t s)) = process_btn_disabled s"
  "progress_running (snd (generate_notes w t s)) = progress_running s"
  "threads_alive (snd (generate_notes w t s)) = threads_alive s"
  by (simp_all add: generate_notes_def generate_notes_try_def read_text_def write_text_def
        Let_def basic_defs split: option.splits sum.splits prod.splits proc.splits exn.splits)

section \<open>What each stage returns and leaves behind\<close>

text \<open>
  \<open>process_pipeline_try\<close> with the stage results taken apart by \<open>fst\<close> and \<open>snd\<close>.
\<close>

lemma process_pipeline_try_alt:
  "process_pipeline_try w s =
     (let m = mkdir w (Path (output_folder s)) s in
      if isl (fst m) then (Inl (projl (fst m)), snd m) else
      let d = download_audio w (update_status ''Downloading audio...'' ''blue'' (snd m)) in
      if isl (fst d) then (Inl (projl (fst d)), snd d) else
      let t = transcribe_audio w (projr (fst d))
                (update_status ''Transcribing audio...'' ''blue'' (snd d)) in
      if isl (fst t) then (Inl (projl (fst t)), snd t) else
      let g = generate_notes w (projr (fst t))
                (update_status ''Generating lecture notes...'' ''blue'' (snd t)) in
      if isl (fst g) then (Inl (projl (fst g)), snd g) else
      (Inr (),
       messagebox Showinfo ''Success''
         (''Lecture notes generated successfully!'' @ [CHR 0x0A, CHR 0x0A] @
          ''Check the 'Generated Notes' tab to view your notes.'')
         (log_message
            (emoji_memo @ '' Notes are now displayed in the 'Generated Notes' tab'')
            (log_message
               (emoji_check @ '' All files saved to: '' @ path_str w (Path (output_folder s)))
               (update_status
                  (emoji_check @ '' Process completed successfully!'') ''green''
                  (snd g))))))"
  by (simp add: process_pipeline_try_def Let_def split: prod.splits sum.splits)

lemma mkdir_isl: "isl (fst (mkdir w p s)) = (mkdir_error w p \<noteq> None)"
  by (simp add: mkdir_def Let_def split: option.splits)

lemma download_audio_isl: "isl (fst (download_audio w s)) = download_fails w s"
  by (simp add: download_audio_def download_fails_def Let_def split: proc.splits exn.splits)

lemma download_audio_projr:
  "\<not> download_fails w s \<Longrightarrow> projr (fst (download_audio w s)) = audio_file s"
  by (cases "run_process w (yt_dlp_cmd w s) []")
     (auto simp: download_audio_def download_fails_def audio_file_def Let_def)

lemma transcribe_audio_isl:
  "isl (fst (transcribe_audio w (audio_file s) s)) = transcribe_fails w s"
  by (auto simp add: transcribe_audio_def transcribe_audio_try_def write_text_def
        transcribe_fails_def model_in_use_def transcript_file_def Let_def basic_defs
        split: option.splits sum.splits prod.splits)

lemma generate_notes_unchanged:
  "isl (fst (generate_notes w t s)) \<Longrightarrow>
     files (snd (generate_notes w t s)) = files s \<and>
     notes_text (snd (generate_notes w t s)) = notes_text s"
  by (auto simp add: generate_notes_def generate_notes_try_def read_text_def write_text_def
        Let_def basic_defs
        split: option.splits sum.splits prod.splits proc.splits exn.splits if_splits)

lemma transcribe_audio_isl_at:
  "isl (fst (transcribe_audio w a s)) =
     (\<not> whisper_available w \<or>
      (whisper_model s = None \<and> load_model_error w (model_size s) \<noteq> None) \<or>
      isl (transcribe_result w (model_in_use s) (path_str w a)) \<or>
      write_error w (transcript_file s) \<noteq> None)"
  by (auto simp add: transcribe_audio_def transcribe_audio_try_def write_text_def
        model_in_use_def transcript_file_def Let_def basic_defs
        split: option.splits sum.splits prod.splits)

lemma transcribe_audio_projr_at:
  "\<not> isl (fst (transcribe_audio w a s)) \<Longrightarrow>
     projr (fst (transcribe_audio w a s)) = transcript_file s"
  by (auto simp add: transcribe_audio_def transcribe_audio_try_def write_text_def
        model_in_use_def transcript_file_def Let_def basic_defs
        split: option.splits sum.splits prod.splits if_splits)

lemma transcribe_audio_files_at:
  "files (snd (transcribe_audio w a s)) =
     (if isl (fst (transcribe_audio w a s)) then files s
      else (files s)(transcript_file s \<mapsto> projr (transcribe_result w (model_in_use s) (path_str w a))))"
  by (auto simp add: transcribe_audio_def transcribe_audio_try_def write_text_def
        model_in_use_def transcript_file_def Let_def basic_defs
        split: option.splits sum.splits prod.splits)

lemma transcribe_audio_whisper_model:
  "\<not> isl (fst (transcribe_audio w a s)) \<Longrightarrow>
     whisper_model (snd (transcribe_audio w a s)) = Some (model_in_use s)"
  by (auto simp add: transcribe_audio_def transcribe_audio_try_def write_text_def
        model_in_use_def transcript_file_def Let_def basic_defs
        split: option.splits sum.splits prod.splits if_splits)

lemma generate_notes_isl:
  "isl (fst (generate_notes w t s)) =
     (case files s t of None \<Rightarrow> True
      | Some c \<Rightarrow>
          \<not> exited_ok (run_process w (ollama_cmd s) (prompt_template @ universal_newlines c)) \<or>
          write_error w (notes_file s) \<noteq> None)"
  by (auto simp add: generate_notes_def generate_notes_try_def read_text_def write_text_def
        notes_file_def ollama_cmd_def Let_def basic_defs
        split: option.splits sum.splits prod.splits proc.splits exn.splits if_splits)

lemmas stage_frames = mkdir_frame download_audio_frame transcribe_audio_frame generate_notes_frame

lemma process_pipeline_try_frame:
  "youtube_url (snd (process_pipeline_try w s)) = youtube_url s"
  "model_size (snd (process_pipeline_try w s)) = model_size s"
  "ollama_model (snd (process_pipeline_try w s)) = ollama_model s"
  "output_folder (snd (process_pipeline_try w s)) = output_folder s"
  "threads_alive (snd (process_pipeline_try w s)) = threads_alive s"
  by (simp_all add: process_pipeline_try_alt Let_def stage_frames basic_defs)

lemma process_pipeline_frame:
  "youtube_url (process_pipeline w s) = youtube_url s"
  "model_size (process_pipeline w s) = model_size s"
  "ollama_model (process_pipeline w s) = ollama_model s"
  "output_folder (process_pipeline w s) = output_folder s"
  "threads_alive (process_pipeline w s) = threads_alive s"
  "\<not> process_btn_disabled (process_pipeline w s)"
  "\<not> progress_running (process_pipeline w s)"
  using process_pipeline_try_frame [of w s]
  by (auto simp add: process_pipeline_def process_pipeline_except_def Let_def basic_defs
        split: prod.splits sum.splits)

lemma process_pipeline_files:
  "files (process_pipeline w s) = files (snd (process_pipeline_try w s))"
  "notes_text (process_pipeline w s) = notes_text (snd (process_pipeline_try w s))"
  "effects (process_pipeline w s) = effects (snd (process_pipeline_try w s))"
  "whisper_model (process_pipeline w s) = whisper_model (snd (process_pipeline_try w s))"
  by (auto simp add: process_pipeline_def process_pipeline_except_def Let_def basic_defs
        split: prod.splits sum.splits)

lemma pipeline_fail_notes:
  "isl (fst (process_pipeline_try w s)) \<Longrightarrow>
     notes_text (snd (process_pipeline_try w s)) = notes_text s \<and>
     files (snd (process_pipeline_try w s)) (notes_file s) = files s (notes_file s)"
  by (simp add: process_pipeline_try_alt Let_def stage_frames basic_defs
        generate_notes_unchanged transcribe_audio_files_at
        audio_file_def transcript_file_def notes_file_def split: if_splits)

lemma transcribe_audio_effects_eq:
  "effects (snd (transcribe_audio w a s)) =
     effects s @
     (if \<not> whisper_available w then []
      else (case whisper_model s of None \<Rightarrow> [Load_model (model_size s)] | Some m \<Rightarrow> []) @
        (if whisper_model s = None \<and> load_model_error w (model_size s) \<noteq> None then []
         else Transcribe (model_in_use s) (path_str w a) #
           (if isl (transcribe_result w (model_in_use s) (path_str w a)) then []
            else [Open_write (transcript_file s)])))"
  by (auto simp add: transcribe_audio_def transcribe_audio_try_def write_text_def
        transcript_file_def model_in_use_def Let_def basic_defs
        split: option.splits sum.splits prod.splits)

lemma generate_notes_effects_eq:
  "effects (snd (generate_notes w t s)) =
     effects s @
     Open_read t #
     (case files s t of
        None \<Rightarrow> []
      | Some c \<Rightarrow>
          Run_process (ollama_cmd s) (prompt_template @ universal_newlines c) #
          (if exited_ok (run_process w (ollama_cmd s) (prompt_template @ universal_newlines c))
           then [Open_write (notes_file s)] else []))"
  by (auto simp add: generate_notes_def generate_notes_try_def read_text_def write_text_def
        notes_file_def ollama_cmd_def Let_def basic_defs
        split: option.splits sum.splits prod.splits proc.splits exn.splits)

lemmas stage_effects =
  mkdir_frame(11) download_audio_frame(10) transcribe_audio_effects_eq
  generate_notes_effects_eq

section \<open>A whole run\<close>

lemma generate_notes_files:
  "files (snd (generate_notes w t s)) =
     (if isl (fst (generate_notes w t s)) then files s
      else (files s)(notes_file s \<mapsto>
             proc_stdout (run_process w (ollama_cmd s)
               (prompt_template @ universal_newlines (the (files s t))))))"
  by (auto simp add: generate_notes_def generate_notes_try_def read_text_def write_text_def
        notes_file_def ollama_cmd_def Let_def basic_defs
        split: option.splits sum.splits prod.splits proc.splits exn.splits if_splits)

lemma generate_notes_notes_text:
  "notes_text (snd (generate_notes w t s)) =
     (if isl (fst (generate_notes w t s)) then notes_text s
      else proc_stdout (run_process w (ollama_cmd s)
             (prompt_template @ universal_newlines (the (files s t)))))"
  by (auto simp add: generate_notes_def generate_notes_try_def read_text_def write_text_def
        notes_file_def ollama_cmd_def Let_def basic_defs
        split: option.splits sum.splits prod.splits proc.splits exn.splits if_splits)

lemmas stage_results =
  mkdir_isl download_audio_isl download_audio_projr
  transcribe_audio_isl_at transcribe_audio_projr_at transcribe_audio_files_at
  transcribe_audio_whisper_model generate_notes_isl generate_notes_files
  generate_notes_notes_text

lemmas setting_defs =
  download_fails_def transcribe_fails_def yt_dlp_cmd_def ollama_cmd_def audio_file_def
  transcript_file_def notes_file_def model_in_use_def

lemmas mock_defs = mock_world_def init_def setting_defs

lemma pipeline_success:
  assumes "backends_succeed w s tr n"
  shows "fst (process_pipeline_try w s) = Inr ()"
    and "files (snd (process_pipeline_try w s)) =
           (files s)(transcript_file s \<mapsto> tr, notes_file s \<mapsto> n)"
    and "notes_text (snd (process_pipeline_try w s)) = n"
    and "whisper_model (snd (process_pipeline_try w s)) = Some (model_in_use s)"
  using assms
  by (auto simp add: backends_succeed_def process_pipeline_try_alt Let_def stage_frames
        basic_defs stage_results setting_defs split: option.splits proc.splits)

lemma pipeline_success_only:
  assumes "\<not> isl (fst (process_pipeline_try w s))"
  shows "\<exists>tr n. backends_succeed w s tr n"
proof -
  from assms have "backends_succeed w s
      (projr (transcribe_result w (model_in_use s) (path_str w (audio_file s))))
      (proc_stdout (run_process w (ollama_cmd s)
         (prompt_template @ universal_newlines
            (projr (transcribe_result w (model_in_use s) (path_str w (audio_file s)))))))"
    by (auto simp add: backends_succeed_def process_pipeline_try_alt Let_def stage_frames
        basic_defs stage_results setting_defs
        split: option.splits proc.splits if_splits sum.splits)
  then show ?thesis by blast
qed

text \<open>
  The whole trace of a run: the calls are made in one fixed order, and the run stops
  at the first one that fails.
\<close>

lemma run_effects_eq:
  "run_effects w s =
     Mkdir (Path (output_folder s)) #
     (if mkdir_error w (Path (output_folder s)) \<noteq> None then []
      else Run_process (yt_dlp_cmd w s) [] #
       (if download_fails w s then []
        else if \<not> whisper_available w then []
        else (case whisper_model s of None \<Rightarrow> [Load_model (model_size s)] | Some m \<Rightarrow> []) @
          (if whisper_model s = None \<and> load_model_error w (model_size s) \<noteq> None then []
           else Transcribe (model_in_use s) (path_str w (audio_file s)) #
             (if isl (transcribe_result w (model_in_use s) (path_str w (audio_file s))) then []
              else Open_write (transcript_file s) #
                (if write_error w (transcript_file s) \<noteq> None then []
                 else Open_read (transcript_file s) #
                   Run_process (ollama_cmd s)
                     (prompt_template @ universal_newlines
                        (projr (transcribe_result w (model_in_use s) (path_str w (audio_file s))))) #
                   (if exited_ok (run_process w (ollama_cmd s)
                         (prompt_template @ universal_newlines
                            (projr (transcribe_result w (model_in_use s) (path_str w (audio_file s))))))
                    then [Open_write (notes_file s)] else []))))))"
proof -
  define D where "D = Path (output_folder s)"
  define s1 where "s1 = update_status ''Downloading audio...'' ''blue'' (snd (mkdir w D s))"
  define d where "d = download_audio w s1"
  define s2 where "s2 = update_status ''Transcribing audio...'' ''blue'' (snd d)"
  define t where "t = transcribe_audio w (projr (fst d)) s2"
  define s3 where "s3 = update_status ''Generating lecture notes...'' ''blue'' (snd t)"
  define g where "g = generate_notes w (projr (fst t)) s3"
  define tr where "tr = projr (transcribe_result w (model_in_use s) (path_str w (audio_file s)))"
  have eff: "effects (snd (process_pipeline_try w s)) =
      (if isl (fst (mkdir w D s)) then effects (snd (mkdir w D s))
       else if isl (fst d) then effects (snd d)
       else if isl (fst t) then effects (snd t)
       else effects (snd g))"
    by (simp add: process_pipeline_try_alt Let_def basic_defs D_def s1_def d_def s2_def t_def
          s3_def g_def)
  have set1: "output_folder s1 = output_folder s" "youtube_url s1 = youtube_url s"
    "model_size s1 = model_size s" "ollama_model s1 = ollama_model s"
    "whisper_model s1 = whisper_model s" "effects s1 = effects s @ [Mkdir D]"
    by (simp_all add: s1_def stage_frames basic_defs)
  have set2: "output_folder s2 = output_folder s" "model_size s2 = model_size s"
    "ollama_model s2 = ollama_model s" "whisper_model s2 = whisper_model s"
    "effects s2 = effects s @ [Mkdir D, Run_process (yt_dlp_cmd w s) []]"
    by (simp_all add: s2_def d_def stage_frames basic_defs set1 yt_dlp_cmd_def)
  have isl_d: "isl (fst d) = download_fails w s"
    by (simp add: d_def download_audio_isl download_fails_def yt_dlp_cmd_def set1)
  have a: "\<not> download_fails w s \<Longrightarrow> projr (fst d) = audio_file s"
    using download_audio_projr [of w s1]
    by (simp add: d_def download_fails_def yt_dlp_cmd_def audio_file_def set1)
  have names2: "model_in_use s2 = model_in_use s" "transcript_file s2 = transcript_file s"
    by (simp_all add: model_in_use_def transcript_file_def set2 split: option.splits)
  have eff_t: "\<not> download_fails w s \<Longrightarrow>
      effects (snd t) = effects s @ [Mkdir D, Run_process (yt_dlp_cmd w s) []] @
        (if \<not> whisper_available w then []
         else (case whisper_model s of None \<Rightarrow> [Load_model (model_size s)] | Some m \<Rightarrow> []) @
           (if whisper_model s = None \<and> load_model_error w (model_size s) \<noteq> None then []
            else Transcribe (model_in_use s) (path_str w (audio_file s)) #
              (if isl (transcribe_result w (model_in_use s) (path_str w (audio_file s))) then []
               else [Open_write (transcript_file s)])))"
    by (simp add: t_def transcribe_audio_effects_eq a set2 names2 cong: option.case_cong)
  have isl_t: "\<not> download_fails w s \<Longrightarrow> isl (fst t) = transcribe_fails w s"
    by (simp add: t_def transcribe_audio_isl_at a set2 names2 transcribe_fails_def)
  have set3: "output_folder s3 = output_folder s" "ollama_model s3 = ollama_model s"
    "effects s3 = effects (snd t)"
    by (simp_all add: s3_def t_def stage_frames basic_defs set2)
  have names3: "ollama_cmd s3 = ollama_cmd s" "notes_file s3 = notes_file s"
    by (simp_all add: ollama_cmd_def notes_file_def set3)
  have tf: "projr (fst t) = transcript_file s \<and> files s3 (transcript_file s) = Some tr"
    if ok: "\<not> download_fails w s" "\<not> transcribe_fails w s"
  proof -
    have t_eq: "t = transcribe_audio w (audio_file s) s2"
      by (simp add: t_def a ok)
    have n: "\<not> isl (fst (transcribe_audio w (audio_file s) s2))"
      using isl_t ok t_eq by simp
    have "projr (fst t) = transcript_file s"
      using transcribe_audio_projr_at [OF n] by (simp add: t_eq names2)
    moreover have "files (snd t) (transcript_file s) = Some tr"
      using transcribe_audio_files_at [of w "audio_file s" s2] n
      by (simp add: t_eq names2 tr_def)
    ultimately show ?thesis
      by (simp add: s3_def basic_defs)
  qed
  have eff_g: "\<not> download_fails w s \<Longrightarrow> \<not> transcribe_fails w s \<Longrightarrow>
      effects (snd g) = effects (snd t) @
        [Open_read (transcript_file s),
         Run_process (ollama_cmd s) (prompt_template @ universal_newlines tr)] @
        (if exited_ok (run_process w (ollama_cmd s) (prompt_template @ universal_newlines tr))
         then [Open_write (notes_file s)] else [])"
    by (simp add: g_def generate_notes_effects_eq tf set3 names3)
  have eff_d: "effects (snd d) = effects s @ [Mkdir D, Run_process (yt_dlp_cmd w s) []]"
    by (simp add: d_def stage_frames set1 yt_dlp_cmd_def)
  have run: "run_effects w s = drop (length (effects s))
      (if mkdir_error w D \<noteq> None then effects s @ [Mkdir D]
       else if download_fails w s then effects (snd d)
       else if transcribe_fails w s then effects (snd t)
       else effects (snd g))"
    using isl_t
    by (simp add: run_effects_def process_pipeline_files eff mkdir_isl mkdir_frame isl_d)
  show ?thesis
  proof (cases "mkdir_error w D \<noteq> None \<or> download_fails w s")
    case True
    then show ?thesis
      by (auto simp add: run eff_d D_def)
  next
    case False
    then have mk: "mkdir_error w (Path (output_folder s)) = None" and df: "\<not> download_fails w s"
      by (simp_all add: D_def)
    show ?thesis
    proof (cases "transcribe_fails w s")
      case True
      then show ?thesis
        using mk df
        by (auto simp add: run eff_t [OF df] D_def transcribe_fails_def split: option.splits)
    next
      case False
      then show ?thesis
        using mk df
        by (auto simp add: run eff_t [OF df] eff_g [OF df False] D_def tr_def
              transcribe_fails_def split: option.splits)
    qed
  qed
qed

section \<open>Rejected submissions\<close>

text \<open>
  C5. With an empty URL, \<open>start_processing\<close> shows the error box and returns: the
  state it leaves differs from the one it found by that box alone. No file is
  touched, no outside call is made (no directory, no process), no thread is started,
  and the button, the progress bar and the status line stay as they were.
\<close>

theorem start_processing_empty_url:
  "youtube_url s = [] \<Longrightarrow>
     start_processing s = messagebox Showerror ''Error'' ''Please enter a YouTube URL'' s \<and>
     files (start_processing s) = files s \<and>
     effects (start_processing s) = effects s \<and>
     threads_alive (start_processing s) = threads_alive s \<and>
     process_btn_disabled (start_processing s) = process_btn_disabled s \<and>
     progress_running (start_processing s) = progress_running s \<and>
     status_label (start_processing s) = status_label s"
  by (simp add: start_processing_def py_strip_def messagebox_def)

theorem start_processing_empty_url_witness:
  "youtube_url (init Map.empty) = [] \<and>
   effects (start_processing (init Map.empty)) = [] \<and>
   threads_alive (start_processing (init Map.empty)) = 0 \<and>
   \<not> process_btn_disabled (start_processing (init Map.empty))"
  using start_processing_empty_url [of "init Map.empty"] by (simp add: init_def messagebox_def)

text \<open>
  C9. A URL that strips to the empty string (by \<open>py_strip_Nil_iff\<close>: a URL of
  whitespace only) is rejected as the empty one is: \<open>start_processing\<close> does to
  the state what it does when the field is empty, that is, it shows the error box
  and nothing else. No file is touched, no outside call is made, no thread is
  started, and the button and the progress bar stay as they were.
\<close>

theorem start_processing_blank_url:
  "py_strip (youtube_url s) = [] \<Longrightarrow>
     start_processing s =
       (start_processing (s\<lparr>youtube_url := []\<rparr>))\<lparr>youtube_url := youtube_url s\<rparr> \<and>
     files (start_processing s) = files s \<and>
     effects (start_processing s) = effects s \<and>
     threads_alive (start_processing s) = threads_alive s \<and>
     process_btn_disabled (start_processing s) = process_btn_disabled s \<and>
     progress_running (start_processing s) = progress_running s"
  by (simp add: start_processing_def py_strip_def messagebox_def)

theorem start_processing_blank_url_witness:
  "py_strip (youtube_url ((init Map.empty)\<lparr>youtube_url := [0x20, 0x09, 0x0A, 0xA0, 0x2003, 0x3000]\<rparr>)) = [] \<and>
   effects (start_processing ((init Map.empty)\<lparr>youtube_url := [0x20, 0x09, 0x0A, 0xA0, 0x2003, 0x3000]\<rparr>)) = [] \<and>
   threads_alive (start_processing ((init Map.empty)\<lparr>youtube_url := [0x20, 0x09, 0x0A, 0xA0, 0x2003, 0x3000]\<rparr>)) = 0"
  using start_processing_blank_url
    [of "(init Map.empty)\<lparr>youtube_url := [0x20, 0x09, 0x0A, 0xA0, 0x2003, 0x3000]\<rparr>"]
  by (simp add: init_def py_strip_def py_isspace_def start_processing_def messagebox_def)

section \<open>Failures of the download stage\<close>

text \<open>
  C8. The download stage raises when the downloader is missing and when it exits with
  a return code other than 0, with different messages: a missing executable gives the
  fixed text that names the tool and how to install it; a failed run gives
  \<open>Failed to download audio: \<close> followed by what the tool wrote to standard error.
\<close>

theorem download_audio_failure_messages:
  assumes "run_process w1 (yt_dlp_cmd w1 s) [] = Raises (FileNotFoundError m)"
    and "run_process w2 (yt_dlp_cmd w2 s) [] = Exits rc out err"
    and "rc \<noteq> 0"
  shows "fst (download_audio w1 s) =
           Inl (Exception ''yt-dlp not found. Please install it: pip install yt-dlp'') \<and>
         fst (download_audio w2 s) = Inl (Exception (''Failed to download audio: '' @ err)) \<and>
         fst (download_audio w1 s) \<noteq> fst (download_audio w2 s)"
  using assms by (simp add: download_audio_def Let_def)

theorem download_audio_failure_messages_witness:
  "fst (download_audio (mock_world (Raises (FileNotFoundError ''yt-dlp'')) (Inr []) (Exits 0 [] []))
      (init Map.empty)) =
     Inl (Exception ''yt-dlp not found. Please install it: pip install yt-dlp'') \<and>
   fst (download_audio (mock_world (Exits 1 [] ''ERROR: Unsupported URL'') (Inr []) (Exits 0 [] []))
      (init Map.empty)) =
     Inl (Exception ''Failed to download audio: ERROR: Unsupported URL'')"
  using download_audio_failure_messages
    [of "mock_world (Raises (FileNotFoundError ''yt-dlp'')) (Inr []) (Exits 0 [] [])"
        "init Map.empty" "''yt-dlp''"
        "mock_world (Exits 1 [] ''ERROR: Unsupported URL'') (Inr []) (Exits 0 [] [])"
        1 "[]" "''ERROR: Unsupported URL''"]
  by (simp add: mock_world_def yt_dlp_cmd_def)

section \<open>The summarization prompt\<close>

lemma universal_newlines_id: "CHR 0x0D \<notin> set cs \<Longrightarrow> universal_newlines cs = cs"
  by (induction cs rule: universal_newlines.induct) auto

text \<open>
  C6, amended. The prompt handed to the summarizer is the fixed template followed by
  the transcript as \<open>read()\<close> returns it in text mode, that is, with every
  carriage return plus line feed and every lone carriage return of the file turned
  into a line feed. For a transcript file without a carriage return
  (\<open>Hello world.\<close> is one) the prompt is the template followed by the content of
  the file, character for character.
\<close>

theorem generate_notes_prompt:
  assumes "files s transcript = Some content"
  shows "take 2 (drop (length (effects s)) (effects (snd (generate_notes w transcript s)))) =
           [Open_read transcript,
            Run_process (ollama_cmd s) (prompt_template @ universal_newlines content)] \<and>
         (CHR 0x0D \<notin> set content \<longrightarrow>
            take 2 (drop (length (effects s)) (effects (snd (generate_notes w transcript s)))) =
              [Open_read transcript,
               Run_process (ollama_cmd s) (prompt_template @ content)])"
  using assms by (simp add: generate_notes_effects_eq universal_newlines_id)

theorem generate_notes_prompt_witness:
  "files (init [Path_join (Path ''./'') ''transcript.txt'' \<mapsto> ''Hello world.''])
     (Path_join (Path ''./'') ''transcript.txt'') = Some ''Hello world.'' \<and>
   CHR 0x0D \<notin> set ''Hello world.'' \<and>
   take 2 (effects (snd (generate_notes (mock_world (Exits 0 [] []) (Inr []) (Exits 0 ''# Notes'' []))
       (Path_join (Path ''./'') ''transcript.txt'')
       (init [Path_join (Path ''./'') ''transcript.txt'' \<mapsto> ''Hello world.''])))) =
     [Open_read (Path_join (Path ''./'') ''transcript.txt''),
      Run_process [ustr ''ollama'', ustr ''run'', ustr ''llama3''] (prompt_template @ ''Hello world.'')]"
  using generate_notes_prompt
    [of "init [Path_join (Path ''./'') ''transcript.txt'' \<mapsto> ''Hello world.'']"
        "Path_join (Path ''./'') ''transcript.txt''" "''Hello world.''"
        "mock_world (Exits 0 [] []) (Inr []) (Exits 0 ''# Notes'' [])"]
  by (simp add: init_def ollama_cmd_def)

text \<open>
  The claim as first stated, for every transcript content, fails on a transcript file
  that holds \<open>a\<close>, a carriage return and \<open>b\<close>: the prompt ends in \<open>a\<close>, a line
  feed and \<open>b\<close>, and holds no carriage return at all.
\<close>

theorem generate_notes_prompt_counterexample:
  "files (init [Path_join (Path ''./'') ''transcript.txt'' \<mapsto> [CHR ''a'', CHR 0x0D, CHR ''b'']])
     (Path_join (Path ''./'') ''transcript.txt'') = Some [CHR ''a'', CHR 0x0D, CHR ''b''] \<and>
   effects (snd (generate_notes (mock_world (Exits 0 [] []) (Inr []) (Exits 0 ''# Notes'' []))
       (Path_join (Path ''./'') ''transcript.txt'')
       (init [Path_join (Path ''./'') ''transcript.txt'' \<mapsto> [CHR ''a'', CHR 0x0D, CHR ''b'']]))) =
     [Open_read (Path_join (Path ''./'') ''transcript.txt''),
      Run_process [ustr ''ollama'', ustr ''run'', ustr ''llama3'']
        (prompt_template @ [CHR ''a'', CHR 0x0A, CHR ''b'']),
      Open_write (Path_join (Path ''./'') ''lecture_notes.txt'')] \<and>
   prompt_template @ [CHR ''a'', CHR 0x0A, CHR ''b''] \<noteq>
     prompt_template @ [CHR ''a'', CHR 0x0D, CHR ''b''] \<and>
   CHR 0x0D \<notin> set (prompt_template @ [CHR ''a'', CHR 0x0A, CHR ''b''])"
  by (simp add: generate_notes_effects_eq ollama_cmd_def notes_file_def init_def
        mock_world_def prompt_template_def)

section \<open>Exceptions and the handler of the pipeline\<close>

text \<open>
  C2, amended. A stage reports a failure by raising: the exception leaves the stage
  method. \<open>process_pipeline\<close> is where it is caught. Whatever the \<open>try\<close> block
  raises, \<open>process_pipeline\<close> returns with the text of the exception in the status
  line (in red), in the last log entry and in an error box, the progress bar stopped
  and the button enabled again.
\<close>

theorem process_pipeline_catches:
  assumes "fst (process_pipeline_try w s) = Inl e"
  shows "status_label (process_pipeline w s) = (emoji_cross @ '' Error: '' @ str_exn e, ''red'') \<and>
         last (log_text (process_pipeline w s)) = emoji_cross @ '' Error: '' @ str_exn e \<and>
         last (messageboxes (process_pipeline w s)) =
           (Showerror, ''Error'', ''Process failed: '' @ str_exn e) \<and>
         \<not> process_btn_disabled (process_pipeline w s) \<and>
         \<not> progress_running (process_pipeline w s)"
  using assms
  by (cases "process_pipeline_try w s")
     (simp add: process_pipeline_def process_pipeline_except_def Let_def basic_defs)

theorem process_pipeline_catches_witness:
  "fst (process_pipeline_try (mock_world (Raises (FileNotFoundError ''yt-dlp'')) (Inr ''first'') (Exits 0 ''notes one'' [])) ((init Map.empty)\<lparr>youtube_url := ustr ''https://youtu.be/x''\<rparr>)) =
     Inl (Exception ''yt-dlp not found. Please install it: pip install yt-dlp'') \<and>
   status_label (process_pipeline (mock_world (Raises (FileNotFoundError ''yt-dlp'')) (Inr ''first'') (Exits 0 ''notes one'' [])) ((init Map.empty)\<lparr>youtube_url := ustr ''https://youtu.be/x''\<rparr>)) =
     (emoji_cross @ '' Error: yt-dlp not found. Please install it: pip install yt-dlp'', ''red'') \<and>
   \<not> process_btn_disabled (process_pipeline (mock_world (Raises (FileNotFoundError ''yt-dlp'')) (Inr ''first'') (Exits 0 ''notes one'' [])) ((init Map.empty)\<lparr>youtube_url := ustr ''https://youtu.be/x''\<rparr>))"
proof -
  have h: "fst (process_pipeline_try (mock_world (Raises (FileNotFoundError ''yt-dlp'')) (Inr ''first'') (Exits 0 ''notes one'' [])) ((init Map.empty)\<lparr>youtube_url := ustr ''https://youtu.be/x''\<rparr>)) =
     Inl (Exception ''yt-dlp not found. Please install it: pip install yt-dlp'')"
    by (simp add: process_pipeline_try_def mkdir_def download_audio_def Let_def basic_defs
          mock_defs)
  show ?thesis
    using h process_pipeline_catches [OF h] by simp
qed

text \<open>
  The claim as first stated, that no stage lets an exception past its own boundary,
  fails when the downloader is not installed: \<open>download_audio\<close> raises.
\<close>

theorem download_audio_raises:
  "fst (download_audio (mock_world (Raises (FileNotFoundError ''yt-dlp'')) (Inr ''first'') (Exits 0 ''notes one'' [])) ((init Map.empty)\<lparr>youtube_url := ustr ''https://youtu.be/x''\<rparr>)) =
     Inl (Exception ''yt-dlp not found. Please install it: pip install yt-dlp'')"
  by (simp add: download_audio_def Let_def basic_defs mock_defs)

section \<open>Running twice\<close>





section \<open>Notes survive a failed run\<close>

lemma stage_failure_fails_run:
  assumes "download_fails w s \<or> transcribe_fails w s \<or>
           (\<forall>prompt. \<not> exited_ok (run_process w (ollama_cmd s) prompt))"
  shows "isl (fst (process_pipeline_try w s))"
proof (rule ccontr)
  assume "\<not> isl (fst (process_pipeline_try w s))"
  then obtain tr n where ok: "backends_succeed w s tr n"
    using pipeline_success_only by blast
  have "\<not> download_fails w s" and "\<not> transcribe_fails w s"
    using ok
    by (auto simp add: backends_succeed_def download_fails_def transcribe_fails_def
          split: option.splits)
  moreover have "exited_ok (run_process w (ollama_cmd s)
                   (prompt_template @ universal_newlines tr))"
    using ok by (auto simp add: backends_succeed_def split: proc.splits)
  ultimately show False
    using assms by blast
qed

text \<open>
  C10. When the download fails, the transcription fails, or the summarizer does not
  exit with 0 whatever prompt it is given, the run leaves the notes pane and the file
  \<open>lecture_notes.txt\<close> as they were. And whenever a run does change the notes pane
  or that file, the transcriber returned a transcript and the summarizer, given the
  prompt for it, exited with 0.
\<close>

theorem notes_replaced_only_on_success:
  "(download_fails w s \<or> transcribe_fails w s \<or>
      (\<forall>prompt. \<not> exited_ok (run_process w (ollama_cmd s) prompt)) \<longrightarrow>
     notes_text (process_pipeline w s) = notes_text s \<and>
     files (process_pipeline w s) (notes_file s) = files s (notes_file s)) \<and>
   (notes_text (process_pipeline w s) \<noteq> notes_text s \<or>
      files (process_pipeline w s) (notes_file s) \<noteq> files s (notes_file s) \<longrightarrow>
     (\<exists>tr. transcribe_result w (model_in_use s) (path_str w (audio_file s)) = Inr tr \<and>
           exited_ok (run_process w (ollama_cmd s) (prompt_template @ universal_newlines tr))))"
proof (intro conjI impI)
  assume "download_fails w s \<or> transcribe_fails w s \<or>
      (\<forall>prompt. \<not> exited_ok (run_process w (ollama_cmd s) prompt))"
  then have "isl (fst (process_pipeline_try w s))"
    by (rule stage_failure_fails_run)
  then show "notes_text (process_pipeline w s) = notes_text s"
    and "files (process_pipeline w s) (notes_file s) = files s (notes_file s)"
    using pipeline_fail_notes [of w s] by (simp_all add: process_pipeline_files)
next
  assume changed: "notes_text (process_pipeline w s) \<noteq> notes_text s \<or>
      files (process_pipeline w s) (notes_file s) \<noteq> files s (notes_file s)"
  have "\<not> isl (fst (process_pipeline_try w s))"
    using changed pipeline_fail_notes [of w s] by (auto simp add: process_pipeline_files)
  then obtain tr n where "backends_succeed w s tr n"
    using pipeline_success_only by blast
  then show "\<exists>tr. transcribe_result w (model_in_use s) (path_str w (audio_file s)) = Inr tr \<and>
           exited_ok (run_process w (ollama_cmd s) (prompt_template @ universal_newlines tr))"
    by (auto simp add: backends_succeed_def split: proc.splits)
qed

theorem notes_replaced_only_on_success_witness:
  "download_fails (mock_world (Exits 1 [] ''ERROR: Unsupported URL'') (Inr ''first'') (Exits 0 ''notes one'' [])) ((init Map.empty)\<lparr>youtube_url := ustr ''https://youtu.be/x''\<rparr>) \<and>
   notes_text (process_pipeline (mock_world (Exits 1 [] ''ERROR: Unsupported URL'') (Inr ''first'') (Exits 0 ''notes one'' [])) ((init Map.empty)\<lparr>youtube_url := ustr ''https://youtu.be/x''\<rparr>)) = [] \<and>
   files (process_pipeline (mock_world (Exits 1 [] ''ERROR: Unsupported URL'') (Inr ''first'') (Exits 0 ''notes one'' [])) ((init Map.empty)\<lparr>youtube_url := ustr ''https://youtu.be/x''\<rparr>)) (Path_join (Path ''./'') ''lecture_notes.txt'') = None \<and>
   notes_text (process_pipeline (mock_world (Exits 0 [] []) (Inr ''first'') (Exits 0 ''notes one'' [])) ((init Map.empty)\<lparr>youtube_url := ustr ''https://youtu.be/x''\<rparr>)) \<noteq> notes_text ((init Map.empty)\<lparr>youtube_url := ustr ''https://youtu.be/x''\<rparr>) \<and>
   exited_ok (run_process (mock_world (Exits 0 [] []) (Inr ''first'') (Exits 0 ''notes one'' [])) (ollama_cmd ((init Map.empty)\<lparr>youtube_url := ustr ''https://youtu.be/x''\<rparr>))
     (prompt_template @ universal_newlines ''first''))"
proof -
  have f: "download_fails (mock_world (Exits 1 [] ''ERROR: Unsupported URL'') (Inr ''first'') (Exits 0 ''notes one'' [])) ((init Map.empty)\<lparr>youtube_url := ustr ''https://youtu.be/x''\<rparr>)"
    by (simp add: mock_defs)
  have h1: "backends_succeed (mock_world (Exits 0 [] []) (Inr ''first'') (Exits 0 ''notes one'' [])) ((init Map.empty)\<lparr>youtube_url := ustr ''https://youtu.be/x''\<rparr>) ''first'' ''notes one''"
    by (simp add: backends_succeed_def mock_defs)
  have c: "notes_text (process_pipeline (mock_world (Exits 0 [] []) (Inr ''first'') (Exits 0 ''notes one'' [])) ((init Map.empty)\<lparr>youtube_url := ustr ''https://youtu.be/x''\<rparr>)) \<noteq> notes_text ((init Map.empty)\<lparr>youtube_url := ustr ''https://youtu.be/x''\<rparr>)"
    using pipeline_success(3) [OF h1] by (simp add: process_pipeline_files init_def)
  have t: "transcribe_result (mock_world (Exits 0 [] []) (Inr ''first'') (Exits 0 ''notes one'' [])) (model_in_use ((init Map.empty)\<lparr>youtube_url := ustr ''https://youtu.be/x''\<rparr>)) (path_str (mock_world (Exits 0 [] []) (Inr ''first'') (Exits 0 ''notes one'' [])) (audio_file ((init Map.empty)\<lparr>youtube_url := ustr ''https://youtu.be/x''\<rparr>))) = Inr ''first''"
    by (simp add: mock_defs)
  show ?thesis
    using f c t notes_replaced_only_on_success [of "mock_world (Exits 1 [] ''ERROR: Unsupported URL'') (Inr ''first'') (Exits 0 ''notes one'' [])" "(init Map.empty)\<lparr>youtube_url := ustr ''https://youtu.be/x''\<rparr>"]
      notes_replaced_only_on_success [of "mock_world (Exits 0 [] []) (Inr ''first'') (Exits 0 ''notes one'' [])" "(init Map.empty)\<lparr>youtube_url := ustr ''https://youtu.be/x''\<rparr>"]
    by (auto simp add: init_def notes_file_def)
qed

section \<open>One run at a time\<close>

lemma gui_event_button_invariant:
  assumes "threads_alive s = (if process_btn_disabled s then 1 else 0)"
  shows "threads_alive (gui_event s e) =
           (if process_btn_disabled (gui_event s e) then 1 else 0)"
  using assms
  by (cases e)
     (auto simp add: start_processing_def messagebox_def clear_log_def clear_notes_def
        pipeline_thread_def Let_def process_pipeline_frame)

lemma gui_events_button_invariant:
  "threads_alive s = (if process_btn_disabled s then 1 else 0) \<Longrightarrow>
     threads_alive (gui_events s evs) =
       (if process_btn_disabled (gui_events s evs) then 1 else 0)"
  unfolding gui_events_def
  by (induction evs arbitrary: s) (simp_all add: gui_event_button_invariant)

text \<open>
  C1, amended. Single flight is kept by the button, not by \<open>start_processing\<close>:
  \<open>start_processing\<close> disables the button before it starts the thread, and the
  \<open>finally\<close> clause of \<open>process_pipeline\<close> enables it again. So in every state the
  window can reach from its initial state by edits, button presses and runs of the
  pipeline thread, at most one pipeline thread is alive, and while one is alive the
  button is disabled and pressing it changes nothing.
\<close>

theorem single_flight_by_button:
  "threads_alive (gui_events (init disk) evs) \<le> 1 \<and>
   (0 < threads_alive (gui_events (init disk) evs) \<longrightarrow>
      process_btn_disabled (gui_events (init disk) evs) \<and>
      gui_event (gui_events (init disk) evs) Press_process_btn = gui_events (init disk) evs)"
proof -
  have "threads_alive (init disk) = (if process_btn_disabled (init disk) then 1 else 0)"
    by (simp add: init_def)
  then have "threads_alive (gui_events (init disk) evs) =
      (if process_btn_disabled (gui_events (init disk) evs) then 1 else 0)"
    by (rule gui_events_button_invariant)
  then show ?thesis
    by (auto split: if_splits)
qed

theorem single_flight_by_button_witness:
  "0 < threads_alive (gui_events (init Map.empty)
         [Edit_url (ustr ''https://youtu.be/x''), Press_process_btn]) \<and>
   gui_event (gui_events (init Map.empty) [Edit_url (ustr ''https://youtu.be/x''), Press_process_btn])
       Press_process_btn =
     gui_events (init Map.empty) [Edit_url (ustr ''https://youtu.be/x''), Press_process_btn]"
proof -
  have "0 < threads_alive (gui_events (init Map.empty)
         [Edit_url (ustr ''https://youtu.be/x''), Press_process_btn])"
    by (simp add: gui_events_def init_def start_processing_def url_not_blank)
  then show ?thesis
    using single_flight_by_button
      [of Map.empty "[Edit_url (ustr ''https://youtu.be/x''), Press_process_btn]"]
    by blast
qed

text \<open>
  The claim as first stated is about a call of \<open>start_processing\<close> itself. It has
  no test for a run in progress: called while one pipeline thread is alive, it starts
  a second.
\<close>

theorem start_processing_second_run:
  "threads_alive (gui_events (init Map.empty)
      [Edit_url (ustr ''https://youtu.be/x''), Press_process_btn]) = 1 \<and>
   threads_alive (start_processing (gui_events (init Map.empty)
      [Edit_url (ustr ''https://youtu.be/x''), Press_process_btn])) = 2"
  by (simp add: gui_events_def init_def start_processing_def url_not_blank)

section \<open>The outside calls of a run\<close>

text \<open>
  C4. When the download fails, the run makes no outside call beyond creating the
  output folder and starting the downloader: the transcriber is never called and the
  summarizer is never started. When the transcription fails, the summarizer is never
  started. And no run makes the same call twice (a retry of a stage would repeat its
  call), whichever stage fails.
\<close>

theorem failure_aborts_remaining_stages:
  "(download_fails w s \<longrightarrow>
      set (run_effects w s) \<subseteq>
        {Mkdir (Path (output_folder s)), Run_process (yt_dlp_cmd w s) []} \<and>
      (\<forall>m a. Transcribe m a \<notin> set (run_effects w s)) \<and>
      (\<forall>p. Run_process (ollama_cmd s) p \<notin> set (run_effects w s))) \<and>
   (transcribe_fails w s \<longrightarrow>
      set (run_effects w s) \<subseteq>
        {Mkdir (Path (output_folder s)), Run_process (yt_dlp_cmd w s) [],
         Load_model (model_size s), Transcribe (model_in_use s) (path_str w (audio_file s)),
         Open_write (transcript_file s)} \<and>
      (\<forall>p. Run_process (ollama_cmd s) p \<notin> set (run_effects w s))) \<and>
   distinct (run_effects w s)"
proof (intro conjI impI)
  assume "download_fails w s"
  then show "set (run_effects w s) \<subseteq>
      {Mkdir (Path (output_folder s)), Run_process (yt_dlp_cmd w s) []}"
    and "\<forall>m a. Transcribe m a \<notin> set (run_effects w s)"
    and "\<forall>p. Run_process (ollama_cmd s) p \<notin> set (run_effects w s)"
    by (simp_all add: run_effects_eq yt_dlp_cmd_def ollama_cmd_def)
next
  assume "transcribe_fails w s"
  then show "set (run_effects w s) \<subseteq>
      {Mkdir (Path (output_folder s)), Run_process (yt_dlp_cmd w s) [],
       Load_model (model_size s), Transcribe (model_in_use s) (path_str w (audio_file s)),
       Open_write (transcript_file s)}"
    and "\<forall>p. Run_process (ollama_cmd s) p \<notin> set (run_effects w s)"
    by (auto simp add: run_effects_eq transcribe_fails_def yt_dlp_cmd_def ollama_cmd_def
          split: option.splits)
next
  show "distinct (run_effects w s)"
    by (auto simp add: run_effects_eq yt_dlp_cmd_def ollama_cmd_def transcript_file_def
          notes_file_def split: option.splits)
qed

theorem failure_aborts_remaining_stages_witness:
  "download_fails
     (mock_world (Exits 1 [] ''ERROR: Unsupported URL'') (Inl (Other_error ''no audio'')) (Exits 0 ''notes'' []))
     ((init Map.empty)\<lparr>youtube_url := ustr ''https://youtu.be/x''\<rparr>) \<and>
   transcribe_fails
     (mock_world (Exits 1 [] ''ERROR: Unsupported URL'') (Inl (Other_error ''no audio'')) (Exits 0 ''notes'' []))
     ((init Map.empty)\<lparr>youtube_url := ustr ''https://youtu.be/x''\<rparr>) \<and>
   set (run_effects
     (mock_world (Exits 1 [] ''ERROR: Unsupported URL'') (Inl (Other_error ''no audio'')) (Exits 0 ''notes'' []))
     ((init Map.empty)\<lparr>youtube_url := ustr ''https://youtu.be/x''\<rparr>)) \<subseteq>
     {Mkdir (Path ''./''),
      Run_process [ustr ''yt-dlp'', ustr ''-f'', ustr ''bestaudio'', ustr ''--extract-audio'',
        ustr ''--audio-format'', ustr ''mp3'', ustr ''-o'', ustr ''.//lecture_audio1.mp3'',
        ustr ''https://youtu.be/x''] []}"
proof -
  let ?w = "mock_world (Exits 1 [] ''ERROR: Unsupported URL'') (Inl (Other_error ''no audio''))
              (Exits 0 ''notes'' [])"
  let ?s = "(init Map.empty)\<lparr>youtube_url := ustr ''https://youtu.be/x''\<rparr>"
  have d: "download_fails ?w ?s"
    by (simp add: mock_defs)
  have t: "transcribe_fails ?w ?s"
    by (simp add: mock_defs)
  have "set (run_effects ?w ?s) \<subseteq>
      {Mkdir (Path (output_folder ?s)), Run_process (yt_dlp_cmd ?w ?s) []}"
    using d failure_aborts_remaining_stages [of ?w ?s] by blast
  then show ?thesis
    using d t by (simp add: init_def yt_dlp_cmd_def mock_world_def)
qed

section \<open>The cached model\<close>

text \<open>
  C3 does not hold of the code. \<open>transcribe_audio\<close> loads a model only when none is
  cached, and never compares the size of the cached model with the selected size. A
  first run with size \<open>base\<close>, then size \<open>large\<close> selected, then a second run: the
  only model ever loaded is \<open>base\<close>, and the second run transcribes with it while
  \<open>large\<close> is the selected size.
\<close>

theorem transcribe_audio_stale_model:
  "model_size (gui_events (init Map.empty)
      [Edit_url (ustr ''https://youtu.be/x''), Press_process_btn,
       Thread_runs (mock_world (Exits 0 [] []) (Inr ''one'') (Exits 0 ''n1'' [])),
       Select_model_size ''large'', Press_process_btn,
       Thread_runs (mock_world (Exits 0 [] []) (Inr ''two'') (Exits 0 ''n2'' []))]) = ''large'' \<and>
   filter (\<lambda>e. case e of Load_model n \<Rightarrow> True | Transcribe n a \<Rightarrow> True | _ \<Rightarrow> False)
     (effects (gui_events (init Map.empty)
      [Edit_url (ustr ''https://youtu.be/x''), Press_process_btn,
       Thread_runs (mock_world (Exits 0 [] []) (Inr ''one'') (Exits 0 ''n1'' [])),
       Select_model_size ''large'', Press_process_btn,
       Thread_runs (mock_world (Exits 0 [] []) (Inr ''two'') (Exits 0 ''n2'' []))])) =
     [Load_model ''base'',
      Transcribe ''base'' ''.//lecture_audio1.mp3'',
      Transcribe ''base'' ''.//lecture_audio1.mp3'']"
  by (simp add: gui_events_def pipeline_thread_def process_pipeline_def process_pipeline_try_def
        process_pipeline_except_def mkdir_def download_audio_def transcribe_audio_def
        transcribe_audio_try_def generate_notes_def generate_notes_try_def read_text_def
        write_text_def yt_dlp_cmd_def ollama_cmd_def start_processing_def url_not_blank
        Let_def basic_defs init_def mock_world_def)

end
